theory Spec2Isabelle
  imports Complex_Main
begin

section \<open>The transcription endpoint of the OpenAI to AssemblyAI proxy\<close>

text \<open>
  This theory embeds \<^verbatim>\<open>app/main.py\<close>: the endpoint function
  \<^verbatim>\<open>create_transcription\<close> and the application-wide
  \<^verbatim>\<open>global_exception_handler\<close>. The modules \<^verbatim>\<open>app/utils.py\<close>,
  \<^verbatim>\<open>app/models.py\<close> and \<^verbatim>\<open>app/assemblyai_client.py\<close> are not among the
  sources; what the endpoint calls from them is a field of the record \<open>env\<close> below, and
  every such call may raise.

  Calls of \<^verbatim>\<open>logger\<close> are left out everywhere: they return nothing and decide no
  branch. Strings are byte strings.
\<close>

subsection \<open>Python values and dictionaries\<close>

datatype pyval =
    PNone
  | PBool bool
  | PNum real
  | PStr string
  | PList "pyval list"
  | PDict "(string \<times> pyval) list"

text \<open>A dictionary with string keys; a key bound to \<open>PNone\<close> is present with value None.\<close>

type_synonym params = "string \<rightharpoonup> pyval"

subsection \<open>Errors\<close>

record error_body =
  message :: string
  error_type :: string
  code :: "string option"

text \<open>
  Modelled from the spec: \<^verbatim>\<open>format_openai_error(message, error_type, code=None)\<close> of
  \<^verbatim>\<open>app/utils.py\<close>, which is not among the sources. The spec gives the envelope
  \<^verbatim>\<open>{ error: { message, type, code? } }\<close>; the model keeps the three arguments.
\<close>

definition format_openai_error :: "string \<Rightarrow> string \<Rightarrow> string option \<Rightarrow> error_body" where
  "format_openai_error m t c = \<lparr>message = m, error_type = t, code = c\<rparr>"

record http_exception =
  status_code :: nat
  detail :: error_body

text \<open>
  The exceptions the handlers of the endpoint tell apart: instances of
  \<^verbatim>\<open>ValueError\<close>, instances of \<^verbatim>\<open>HTTPException\<close>, and every other instance of
  \<^verbatim>\<open>Exception\<close>. The string is \<^verbatim>\<open>str(e)\<close>. What is raised outside
  \<^verbatim>\<open>Exception\<close> (an interrupt, the exit of the process, the cancelling of the task)
  is caught by no handler of the endpoint and is not modelled.
\<close>

datatype exn =
    ValueError string
  | HTTPException http_exception
  | OtherException string

subsection \<open>The inbound request\<close>

record UploadFile =
  filename :: "string option"
  read :: "exn + string"

record request =
  authorization :: "string option"
  "file" :: "UploadFile option"
  model :: string
  language :: "string option"
  prompt :: "string option"
  response_format :: string
  temperature :: real
  audio_url :: "string option"

subsection \<open>Collaborators and the calls made to the provider\<close>

text \<open>
  \<open>'q\<close> is the outbound request object, \<open>'r\<close> the provider's result and \<open>'o\<close> the
  response payload. The methods of a client take the key the client was built with.
  \<open>str_HTTPException\<close> is \<^verbatim>\<open>str\<close> on an \<^verbatim>\<open>HTTPException\<close>, which the framework
  defines. \<open>AssemblyAITranscriptionRequest\<close> takes the keyword arguments as a dictionary.
\<close>

record ('q, 'r, 'o) env =
  AssemblyAIClient :: "string \<Rightarrow> exn + unit"
  upload_file :: "string \<Rightarrow> string \<Rightarrow> string option \<Rightarrow> exn + string"
  transcribe :: "string \<Rightarrow> 'q \<Rightarrow> exn + 'r"
  validate_audio_url :: "string \<Rightarrow> exn + bool"
  parse_prompt_for_config :: "string option \<Rightarrow> exn + (params \<times> string option)"
  map_language_code :: "string option \<Rightarrow> exn + pyval"
  map_openai_model_to_speech_model :: "string \<Rightarrow> exn + pyval"
  parse_word_boost :: "string option \<Rightarrow> exn + pyval"
  AssemblyAITranscriptionRequest :: "params \<Rightarrow> exn + 'q"
  convert_assemblyai_to_openai_response :: "'r \<Rightarrow> string \<Rightarrow> exn + 'o"
  str_HTTPException :: "http_exception \<Rightarrow> string"

datatype 'q call =
    Construct string
  | Upload string string "string option"
  | Transcribe string 'q

text \<open>
  A computation yields the calls it made on the provider client, in order, and either the
  exception it raised or its value.
\<close>

type_synonym ('q, 'a) io = "'q call list \<times> (exn + 'a)"

definition ret :: "'a \<Rightarrow> ('q, 'a) io" where
  "ret x = ([], Inr x)"

definition raise :: "exn \<Rightarrow> ('q, 'a) io" where
  "raise e = ([], Inl e)"

definition lift :: "exn + 'a \<Rightarrow> ('q, 'a) io" where
  "lift r = ([], r)"

definition invoke :: "'q call \<Rightarrow> exn + 'a \<Rightarrow> ('q, 'a) io" where
  "invoke c r = ([c], r)"

definition bind_io :: "('q, 'a) io \<Rightarrow> ('a \<Rightarrow> ('q, 'b) io) \<Rightarrow> ('q, 'b) io" where
  "bind_io m f =
     (case m of
        (cs, Inl e) \<Rightarrow> (cs, Inl e)
      | (cs, Inr x) \<Rightarrow> (case f x of (cs', r) \<Rightarrow> (cs @ cs', r)))"

definition catch_io :: "('q, 'a) io \<Rightarrow> (exn \<Rightarrow> ('q, 'a) io) \<Rightarrow> ('q, 'a) io" where
  "catch_io m h =
     (case m of
        (cs, Inl e) \<Rightarrow> (case h e of (cs', r) \<Rightarrow> (cs @ cs', r))
      | (cs, Inr x) \<Rightarrow> (cs, Inr x))"

text \<open>Sequencing of calls that make no call on the provider client.\<close>

definition bind_exn :: "exn + 'a \<Rightarrow> ('a \<Rightarrow> exn + 'b) \<Rightarrow> exn + 'b" where
  "bind_exn r f = (case r of Inl e \<Rightarrow> Inl e | Inr x \<Rightarrow> f x)"

definition str_exn :: "('q, 'r, 'o) env \<Rightarrow> exn \<Rightarrow> string" where
  "str_exn env e =
     (case e of
        ValueError m \<Rightarrow> m
      | HTTPException h \<Rightarrow> str_HTTPException env h
      | OtherException m \<Rightarrow> m)"

subsection \<open>Strings\<close>

text \<open>
  \<^verbatim>\<open>str.lower\<close> on bytes: the letters A to Z move to a to z. The five keywords of the
  error translator are ASCII; none holds a \<open>k\<close> and none ends in \<open>i\<close>, the only
  ASCII letters that Python lowers a non-ASCII code point to (the Kelvin sign, and the
  dotted capital I, which becomes \<open>i\<close> and a combining dot). So on UTF-8 input the matches
  below are those of Python.
\<close>

definition lower_char :: "char \<Rightarrow> char" where
  "lower_char c =
     (let n = (of_char c :: nat) in if 65 \<le> n \<and> n \<le> 90 then char_of (n + 32) else c)"

definition lower :: "string \<Rightarrow> string" where
  "lower s = map lower_char s"

fun startswith :: "string \<Rightarrow> string \<Rightarrow> bool" where
  "startswith s [] = True"
| "startswith [] (p # ps) = False"
| "startswith (c # cs) (p # ps) = (c = p \<and> startswith cs ps)"

text \<open>\<^verbatim>\<open>sub in s\<close> for strings.\<close>

fun str_in :: "string \<Rightarrow> string \<Rightarrow> bool" where
  "str_in sub [] = (sub = [])"
| "str_in sub (c # cs) = (startswith (c # cs) sub \<or> str_in sub cs)"

subsection \<open>The error translator (lines 256 to 289)\<close>

text \<open>The status, the error type and the code chosen for the message of a failed transcription.\<close>

definition classify_error :: "string \<Rightarrow> nat \<times> string \<times> string" where
  "classify_error error_msg =
     (if str_in ''timeout'' (lower error_msg) then
        (408, ''timeout_error'', ''transcription_timeout'')
      else if str_in ''invalid'' (lower error_msg) \<or> str_in ''bad request'' (lower error_msg) then
        (400, ''invalid_request_error'', ''invalid_audio'')
      else if str_in ''unauthorized'' (lower error_msg) then
        (401, ''authentication_error'', ''invalid_api_key'')
      else if str_in ''not found'' (lower error_msg) then
        (404, ''not_found_error'', ''audio_not_found'')
      else
        (500, ''api_error'', ''transcription_failed''))"

definition transcription_error :: "string \<Rightarrow> exn" where
  "transcription_error error_msg =
     (case classify_error error_msg of
        (status, etype, ecode) \<Rightarrow>
          HTTPException \<lparr>status_code = status,
            detail = format_openai_error error_msg etype (Some ecode)\<rparr>)"

subsection \<open>The endpoint\<close>

text \<open>Lines 88 to 115: the key from the authorization header.\<close>

definition extract_api_key :: "string option \<Rightarrow> exn + string" where
  "extract_api_key auth_header =
     (case auth_header of
        None \<Rightarrow>
          Inl (HTTPException \<lparr>status_code = 401,
            detail = format_openai_error ''No authorization header provided''
              ''invalid_request_error'' (Some ''missing_authorization'')\<rparr>)
      | Some h \<Rightarrow>
          if h = [] then
            Inl (HTTPException \<lparr>status_code = 401,
              detail = format_openai_error ''No authorization header provided''
                ''invalid_request_error'' (Some ''missing_authorization'')\<rparr>)
          else
            let api_key = (if startswith h ''Bearer '' then drop 7 h else h) in
            if api_key = [] then
              Inl (HTTPException \<lparr>status_code = 401,
                detail = format_openai_error ''Invalid authorization header format''
                  ''invalid_request_error'' (Some ''invalid_authorization'')\<rparr>)
            else Inr api_key)"

text \<open>Lines 122 to 134, and again lines 238 to 249: the client is built from the key.\<close>

definition init_client :: "('q, 'r, 'o) env \<Rightarrow> string \<Rightarrow> ('q, unit) io" where
  "init_client env api_key =
     catch_io (invoke (Construct api_key) (AssemblyAIClient env api_key))
       (\<lambda>e. case e of
          ValueError m \<Rightarrow>
            raise (HTTPException \<lparr>status_code = 500,
              detail = format_openai_error ''AssemblyAI API key not configured''
                ''api_error'' (Some ''missing_api_key'')\<rparr>)
        | _ \<Rightarrow> raise e)"

text \<open>Lines 136 to 150: the file is read and uploaded; every exception becomes a 400.\<close>

definition read_and_upload :: "('q, 'r, 'o) env \<Rightarrow> string \<Rightarrow> UploadFile \<Rightarrow> ('q, string) io" where
  "read_and_upload env api_key f =
     catch_io
       (bind_io (lift (read f)) (\<lambda>file_content.
          invoke (Upload api_key file_content (filename f))
            (upload_file env api_key file_content (filename f))))
       (\<lambda>e. raise (HTTPException \<lparr>status_code = 400,
          detail = format_openai_error (''Failed to upload file: '' @ str_exn env e)
            ''invalid_request_error'' (Some ''file_upload_failed'')\<rparr>))"

text \<open>
  Lines 116 to 177: the audio source. An \<^verbatim>\<open>UploadFile\<close> is truthy; a URL is truthy
  when it is not empty.
\<close>

definition missing_audio_input :: exn where
  "missing_audio_input =
     HTTPException \<lparr>status_code = 400,
       detail = format_openai_error
         (''Either '' @ [CHR 0x27] @ ''file'' @ [CHR 0x27] @ '' or '' @ [CHR 0x27] @
            ''audio_url'' @ [CHR 0x27] @ '' parameter is required'')
         ''invalid_request_error'' (Some ''missing_audio_input'')\<rparr>"

definition resolve_audio ::
  "('q, 'r, 'o) env \<Rightarrow> string \<Rightarrow> UploadFile option \<Rightarrow> string option \<Rightarrow> ('q, string) io" where
  "resolve_audio env api_key fo uo =
     (case fo of
        Some f \<Rightarrow>
          bind_io (init_client env api_key) (\<lambda>_. read_and_upload env api_key f)
      | None \<Rightarrow>
          (case uo of
             Some u \<Rightarrow>
               if u \<noteq> [] then
                 bind_io (lift (validate_audio_url env u)) (\<lambda>ok.
                   if \<not> ok then
                     raise (HTTPException \<lparr>status_code = 400,
                       detail = format_openai_error
                         ''Invalid audio URL format or unsupported audio type''
                         ''invalid_request_error'' (Some ''invalid_audio_url'')\<rparr>)
                   else ret u)
               else raise missing_audio_input
           | None \<Rightarrow> raise missing_audio_input))"

text \<open>Lines 214 to 223.\<close>

definition base_params :: "string \<Rightarrow> pyval \<Rightarrow> pyval \<Rightarrow> pyval \<Rightarrow> pyval \<Rightarrow> params" where
  "base_params final_audio_url language_code speech_model word_boost speaker_diarization =
     [''audio_url'' \<mapsto> PStr final_audio_url,
      ''language_code'' \<mapsto> language_code,
      ''speech_model'' \<mapsto> speech_model,
      ''word_boost'' \<mapsto> word_boost,
      ''speaker_labels'' \<mapsto> speaker_diarization,
      ''punctuate'' \<mapsto> PBool True,
      ''format_text'' \<mapsto> PBool True]"

text \<open>Line 226: \<^verbatim>\<open>{**base_params, **config_dict}\<close>.\<close>

definition merge_params :: "params \<Rightarrow> params \<Rightarrow> params" where
  "merge_params base config_dict = base ++ config_dict"

text \<open>Line 229: \<^verbatim>\<open>{k: v for k, v in merged_params.items() if v is not None}\<close>.\<close>

definition drop_none :: "params \<Rightarrow> params" where
  "drop_none merged = (\<lambda>k. case merged k of Some PNone \<Rightarrow> None | r \<Rightarrow> r)"

text \<open>Line 190: \<^verbatim>\<open>config_dict.get("speaker_labels", False)\<close>.\<close>

definition get_speaker_labels :: "params \<Rightarrow> pyval" where
  "get_speaker_labels config_dict =
     (case config_dict ''speaker_labels'' of None \<Rightarrow> PBool False | Some v \<Rightarrow> v)"

text \<open>Lines 201 to 208.\<close>

definition invalid_model_error :: "string \<Rightarrow> exn" where
  "invalid_model_error m =
     HTTPException \<lparr>status_code = 400,
       detail = format_openai_error
         (''Invalid model '' @ [CHR 0x27] @ m @ [CHR 0x27] @
            ''. Valid AssemblyAI speech models are: best, slam-1, universal'')
         ''invalid_request_error'' (Some ''invalid_model'')\<rparr>"

text \<open>Lines 251 to 289: the transcription call and the translation of its failure.\<close>

definition perform_transcription :: "('q, 'r, 'o) env \<Rightarrow> string \<Rightarrow> 'q \<Rightarrow> ('q, 'r) io" where
  "perform_transcription env api_key assemblyai_request =
     catch_io
       (invoke (Transcribe api_key assemblyai_request)
          (transcribe env api_key assemblyai_request))
       (\<lambda>e. raise (transcription_error (str_exn env e)))"

text \<open>
  Lines 183 to 234: the prompt is parsed, the parameters are mapped, the model is checked
  and the outbound request is built. No call on the provider client is made here.
\<close>

definition build_request :: "('q, 'r, 'o) env \<Rightarrow> request \<Rightarrow> string \<Rightarrow> exn + 'q" where
  "build_request env rq final_audio_url =
     bind_exn (parse_prompt_for_config env (prompt rq)) (\<lambda>(config_dict, cleaned_prompt).
     bind_exn (map_language_code env (language rq)) (\<lambda>language_code.
     bind_exn (map_openai_model_to_speech_model env (model rq)) (\<lambda>speech_model.
     bind_exn (parse_word_boost env cleaned_prompt) (\<lambda>word_boost.
       if model rq \<noteq> [] \<and> speech_model = PNone then Inl (invalid_model_error (model rq))
       else
         AssemblyAITranscriptionRequest env
           (drop_none (merge_params
              (base_params final_audio_url language_code speech_model word_boost
                 (get_speaker_labels config_dict))
              config_dict))))))"

text \<open>
  Lines 88 to 302: the body of the outer \<^verbatim>\<open>try\<close>. Lines 297 to 302 return the
  converted response whatever the response format is.
\<close>

definition transcription_body :: "('q, 'r, 'o) env \<Rightarrow> request \<Rightarrow> ('q, 'o) io" where
  "transcription_body env rq =
     bind_io (lift (extract_api_key (authorization rq))) (\<lambda>api_key.
     bind_io (resolve_audio env api_key (file rq) (audio_url rq)) (\<lambda>final_audio_url.
     bind_io (lift (build_request env rq final_audio_url)) (\<lambda>assemblyai_request.
     bind_io (if file rq = None then init_client env api_key else ret ()) (\<lambda>_.
     bind_io (perform_transcription env api_key assemblyai_request) (\<lambda>assemblyai_response.
       lift (convert_assemblyai_to_openai_response env assemblyai_response
         (response_format rq)))))))"

text \<open>
  Lines 304 to 314: an \<^verbatim>\<open>HTTPException\<close> is raised again as it is, every other
  exception becomes the generic 500.
\<close>

definition internal_server_error :: exn where
  "internal_server_error =
     HTTPException \<lparr>status_code = 500,
       detail = format_openai_error ''Internal server error'' ''api_error'' None\<rparr>"

definition outer_boundary :: "('q, 'a) io \<Rightarrow> ('q, 'a) io" where
  "outer_boundary m =
     catch_io m (\<lambda>e. case e of HTTPException h \<Rightarrow> raise e | _ \<Rightarrow> raise internal_server_error)"

definition create_transcription :: "('q, 'r, 'o) env \<Rightarrow> request \<Rightarrow> ('q, 'o) io" where
  "create_transcription env rq = outer_boundary (transcription_body env rq)"

text \<open>Lines 50 to 60: the handler installed for every exception the application lets through.\<close>

definition global_exception_handler :: "exn \<Rightarrow> nat \<times> error_body" where
  "global_exception_handler exc =
     (500, format_openai_error ''Internal server error'' ''api_error'' None)"

subsection \<open>The prompt configuration parser, from the specification\<close>

text \<open>
  Modelled from the spec: the places where an embedded JSON object may stand in a prompt,
  each with the text before and after it. A candidate opens with a brace and closes with
  one. Candidates that open first come first and, among those, the longest: the
  specification leaves the choice open.
\<close>

definition json_candidates :: "string \<Rightarrow> (string \<times> string \<times> string) list" where
  "json_candidates text =
     [(take i text, take (Suc j - i) (drop i text), drop (Suc j) text).
        i \<leftarrow> [0..<length text], j \<leftarrow> rev [i..<length text],
        text ! i = CHR ''{'', text ! j = CHR ''}'']"

text \<open>
  Modelled from the spec: step 1 of section 4.1. The first candidate that decodes to an
  object is the configuration, and the residual is the text without it. The decoder is a
  parameter; it raises on malformed text, as \<^verbatim>\<open>json.loads\<close> does, and the failure
  is caught here.
\<close>

fun first_json_object ::
  "(string \<Rightarrow> exn + pyval) \<Rightarrow> (string \<times> string \<times> string) list \<Rightarrow>
     ((string \<times> pyval) list \<times> string) option" where
  "first_json_object json_loads [] = None"
| "first_json_object json_loads ((before, candidate, after) # rest) =
     (case json_loads candidate of
        Inr (PDict items) \<Rightarrow> Some (items, before @ after)
      | _ \<Rightarrow> first_json_object json_loads rest)"

text \<open>
  Modelled from the spec: a matched substring is stripped from the residual (its first
  occurrence).
\<close>

fun remove_first :: "string \<Rightarrow> string \<Rightarrow> string" where
  "remove_first sub [] = []"
| "remove_first sub (c # cs) =
     (if startswith (c # cs) sub then drop (length sub) (c # cs) else c # remove_first sub cs)"

text \<open>
  Modelled from the spec: step 2 of section 4.1. Each legacy pattern found in the residual
  sets its key and is stripped. The table of patterns (pattern, key, value) is a parameter.
\<close>

fun apply_legacy_patterns ::
  "(string \<times> string \<times> pyval) list \<Rightarrow> params \<Rightarrow> string \<Rightarrow> params \<times> string" where
  "apply_legacy_patterns [] config residual = (config, residual)"
| "apply_legacy_patterns ((pattern, key, v) # rest) config residual =
     (if str_in pattern residual then
        apply_legacy_patterns rest (config(key \<mapsto> v)) (remove_first pattern residual)
      else apply_legacy_patterns rest config residual)"

text \<open>
  Modelled from the spec: \<^verbatim>\<open>parse_prompt_for_config\<close> of \<^verbatim>\<open>app/utils.py\<close>, which is
  not among the sources, after section 4.1: an embedded JSON object first, the legacy
  patterns otherwise, and with neither an empty configuration and the prompt unchanged.
  An absent prompt has neither.
\<close>

definition spec_parse_prompt_for_config ::
  "(string \<Rightarrow> exn + pyval) \<Rightarrow> (string \<times> string \<times> pyval) list \<Rightarrow> string option \<Rightarrow>
     exn + (params \<times> string option)" where
  "spec_parse_prompt_for_config json_loads legacy_patterns p =
     (case p of
        None \<Rightarrow> Inr (Map.empty, None)
      | Some text \<Rightarrow>
          (case first_json_object json_loads (json_candidates text) of
             Some (items, residual) \<Rightarrow> Inr (map_of (rev items), Some residual)
           | None \<Rightarrow>
               (case apply_legacy_patterns legacy_patterns Map.empty text of
                  (config, residual) \<Rightarrow> Inr (config, Some residual))))"

subsection \<open>An example environment\<close>

text \<open>
  The first end-to-end scenario of the specification: a request for an audio URL with the
  model \<^verbatim>\<open>whisper-1\<close> and a bearer token, and a provider that answers \<open>hello\<close>.
  The theorems below are instantiated here.
\<close>

definition example_json_loads :: "string \<Rightarrow> exn + pyval" where
  "example_json_loads s =
     (if s = ''{}'' then Inr (PDict []) else Inl (ValueError ''Expecting value''))"

definition example_env :: "(pyval option list, string, string) env" where
  "example_env =
     \<lparr>AssemblyAIClient = (\<lambda>k. Inr ()),
      upload_file = (\<lambda>k c f. Inr ''https://cdn.example/upload/1''),
      transcribe = (\<lambda>k q. Inr ''hello''),
      validate_audio_url = (\<lambda>u. Inr True),
      parse_prompt_for_config =
        (\<lambda>p. if p = Some ''diarize'' then Inr ([''speaker_labels'' \<mapsto> PBool True], Some [])
             else Inr (Map.empty, p)),
      map_language_code = (\<lambda>l. Inr (case l of None \<Rightarrow> PNone | Some c \<Rightarrow> PStr c)),
      map_openai_model_to_speech_model =
        (\<lambda>m. Inr (if m = ''whisper-1'' \<or> m = ''best'' then PStr ''best'' else PNone)),
      parse_word_boost = (\<lambda>p. Inr (PList [])),
      AssemblyAITranscriptionRequest =
        (\<lambda>p. Inr (map p [''audio_url'', ''language_code'', ''speech_model'', ''word_boost'',
           ''speaker_labels'', ''punctuate'', ''format_text''])),
      convert_assemblyai_to_openai_response = (\<lambda>r fmt. Inr r),
      str_HTTPException = (\<lambda>h. ''http error'')\<rparr>"

definition url_request :: request where
  "url_request =
     \<lparr>authorization = Some ''Bearer sk-test'', file = None, model = ''whisper-1'',
      language = None, prompt = None, response_format = ''json'', temperature = 0,
      audio_url = Some ''https://x.com/a.mp3''\<rparr>"

definition example_file :: UploadFile where
  "example_file = \<lparr>filename = Some ''a.mp3'', read = Inr ''RIFF''\<rparr>"

section \<open>Auxiliary lemmas\<close>

subsection \<open>Sequencing\<close>

lemma bind_exn_Inl [simp]: "bind_exn (Inl e) f = Inl e"
  by (simp add: bind_exn_def)

lemma bind_exn_Inr [simp]: "bind_exn (Inr x) f = f x"
  by (simp add: bind_exn_def)

lemma bind_io_Inl [simp]: "bind_io (cs, Inl e) f = (cs, Inl e)"
  by (simp add: bind_io_def)

lemma bind_io_Inr [simp]: "bind_io (cs, Inr x) f = (cs @ fst (f x), snd (f x))"
  by (simp add: bind_io_def split: prod.splits)

lemma bind_io_lift_Inl [simp]: "bind_io (lift (Inl e)) f = ([], Inl e)"
  by (simp add: lift_def)

lemma bind_io_lift_Inr [simp]: "bind_io (lift (Inr x)) f = f x"
  by (simp add: lift_def)

lemma bind_io_ret [simp]: "bind_io (ret x) f = f x"
  by (simp add: ret_def)

lemma bind_io_raise [simp]: "bind_io (raise e) f = ([], Inl e)"
  by (simp add: raise_def)

lemma catch_io_Inl [simp]: "catch_io (cs, Inl e) h = (cs @ fst (h e), snd (h e))"
  by (simp add: catch_io_def split: prod.splits)

lemma catch_io_Inr [simp]: "catch_io (cs, Inr x) h = (cs, Inr x)"
  by (simp add: catch_io_def)

lemma outer_boundary_Inr [simp]: "outer_boundary (cs, Inr x) = (cs, Inr x)"
  by (simp add: outer_boundary_def)

lemma outer_boundary_Inl [simp]:
  "outer_boundary (cs, Inl e) =
     (cs, Inl (case e of HTTPException h \<Rightarrow> e | _ \<Rightarrow> internal_server_error))"
  by (simp add: outer_boundary_def raise_def split: exn.splits)

lemma fst_bind_io:
  "fst (bind_io m f) = fst m @ (case snd m of Inl e \<Rightarrow> [] | Inr x \<Rightarrow> fst (f x))"
  by (cases m; cases "snd m") auto

lemma snd_bind_io:
  "snd (bind_io m f) = (case snd m of Inl e \<Rightarrow> Inl e | Inr x \<Rightarrow> snd (f x))"
  by (cases m; cases "snd m") auto

lemma fst_outer_boundary: "fst (outer_boundary m) = fst m"
  by (cases m; cases "snd m") (auto simp: raise_def split: exn.splits)

lemma snd_outer_boundary:
  "snd (outer_boundary m) =
     (case snd m of
        Inl (HTTPException h) \<Rightarrow> Inl (HTTPException h)
      | Inl _ \<Rightarrow> Inl internal_server_error
      | Inr x \<Rightarrow> Inr x)"
  by (cases m; cases "snd m") (auto split: exn.splits)

lemma init_client_eq:
  "init_client env k =
     ([Construct k],
      case AssemblyAIClient env k of
        Inl (ValueError m) \<Rightarrow>
          Inl (HTTPException \<lparr>status_code = 500,
            detail = format_openai_error ''AssemblyAI API key not configured''
              ''api_error'' (Some ''missing_api_key'')\<rparr>)
      | r \<Rightarrow> r)"
  by (simp add: init_client_def invoke_def raise_def split: sum.splits exn.splits)

lemma perform_transcription_eq:
  "perform_transcription env k q =
     ([Transcribe k q],
      case transcribe env k q of
        Inl e \<Rightarrow> Inl (transcription_error (str_exn env e))
      | Inr r \<Rightarrow> Inr r)"
  by (simp add: perform_transcription_def invoke_def raise_def split: sum.splits)

lemma read_and_upload_eq:
  "read_and_upload env k f =
     (case read f of
        Inl e \<Rightarrow>
          ([], Inl (HTTPException \<lparr>status_code = 400,
            detail = format_openai_error (''Failed to upload file: '' @ str_exn env e)
              ''invalid_request_error'' (Some ''file_upload_failed'')\<rparr>))
      | Inr c \<Rightarrow>
          ([Upload k c (filename f)],
           case upload_file env k c (filename f) of
             Inl e \<Rightarrow>
               Inl (HTTPException \<lparr>status_code = 400,
                 detail = format_openai_error (''Failed to upload file: '' @ str_exn env e)
                   ''invalid_request_error'' (Some ''file_upload_failed'')\<rparr>)
           | Inr u \<Rightarrow> Inr u))"
  by (simp add: read_and_upload_def invoke_def raise_def split: sum.splits)

lemma resolve_audio_calls:
  "Transcribe k' q \<notin> set (fst (resolve_audio env k fo uo))"
  by (auto simp: resolve_audio_def init_client_eq read_and_upload_eq raise_def ret_def lift_def
      fst_bind_io split: option.splits sum.splits exn.splits)

lemma build_request_Inr:
  assumes "build_request env rq u = Inr q"
  shows "\<exists>cfg cleaned lc sm wb.
           parse_prompt_for_config env (prompt rq) = Inr (cfg, cleaned) \<and>
           map_language_code env (language rq) = Inr lc \<and>
           map_openai_model_to_speech_model env (model rq) = Inr sm \<and>
           parse_word_boost env cleaned = Inr wb \<and>
           \<not> (model rq \<noteq> [] \<and> sm = PNone) \<and>
           AssemblyAITranscriptionRequest env
             (drop_none (merge_params
                (base_params u lc sm wb (get_speaker_labels cfg)) cfg)) = Inr q"
proof -
  obtain cfg cleaned where 1: "parse_prompt_for_config env (prompt rq) = Inr (cfg, cleaned)"
    using assms by (cases "parse_prompt_for_config env (prompt rq)") (auto simp: build_request_def)
  obtain lc where 2: "map_language_code env (language rq) = Inr lc"
    using assms 1 by (cases "map_language_code env (language rq)") (auto simp: build_request_def)
  obtain sm where 3: "map_openai_model_to_speech_model env (model rq) = Inr sm"
    using assms 1 2
    by (cases "map_openai_model_to_speech_model env (model rq)") (auto simp: build_request_def)
  obtain wb where 4: "parse_word_boost env cleaned = Inr wb"
    using assms 1 2 3 by (cases "parse_word_boost env cleaned") (auto simp: build_request_def)
  from assms 1 2 3 4 show ?thesis
    by (auto simp: build_request_def split: if_splits)
qed

lemma body_reaches_transcribe:
  assumes "Transcribe k q \<in> set (fst (transcription_body env rq))"
  shows "\<exists>cs u. extract_api_key (authorization rq) = Inr k \<and>
           resolve_audio env k (file rq) (audio_url rq) = (cs, Inr u) \<and>
           build_request env rq u = Inr q \<and>
           transcription_body env rq =
             (cs @ (if file rq = None then [Construct k] else []) @ [Transcribe k q],
              case transcribe env k q of
                Inl e \<Rightarrow> Inl (transcription_error (str_exn env e))
              | Inr r \<Rightarrow> convert_assemblyai_to_openai_response env r (response_format rq))"
proof -
  obtain key where K: "extract_api_key (authorization rq) = Inr key"
    using assms by (cases "extract_api_key (authorization rq)") (auto simp: transcription_body_def)
  obtain cs ra where RA: "resolve_audio env key (file rq) (audio_url rq) = (cs, ra)"
    by fastforce
  have nocs: "Transcribe k q \<notin> set cs"
    using resolve_audio_calls [of k q env key "file rq" "audio_url rq"] RA by simp
  obtain u where U: "ra = Inr u"
    using assms K RA nocs by (cases ra) (auto simp: transcription_body_def)
  obtain q' where Q: "build_request env rq u = Inr q'"
    using assms K RA U nocs
    by (cases "build_request env rq u") (auto simp: transcription_body_def)
  have body: "transcription_body env rq =
      (cs @ fst (bind_io (if file rq = None then init_client env key else ret ())
           (\<lambda>_. bind_io (perform_transcription env key q') (\<lambda>assemblyai_response.
              lift (convert_assemblyai_to_openai_response env assemblyai_response
                (response_format rq))))),
       snd (bind_io (if file rq = None then init_client env key else ret ())
           (\<lambda>_. bind_io (perform_transcription env key q') (\<lambda>assemblyai_response.
              lift (convert_assemblyai_to_openai_response env assemblyai_response
                (response_format rq))))))"
    using K RA U Q by (simp add: transcription_body_def)
  show ?thesis
  proof (cases "file rq = None")
    case True
    then obtain v where C: "AssemblyAIClient env key = Inr v"
      using assms nocs body
      by (cases "AssemblyAIClient env key")
         (auto simp: init_client_eq split: exn.splits)
    with True assms nocs body have "key = k" "q' = q"
      by (auto simp: init_client_eq perform_transcription_eq lift_def split: sum.splits)
    with True C K RA U Q body show ?thesis
      by (auto simp: init_client_eq perform_transcription_eq lift_def split: sum.splits)
  next
    case False
    with assms nocs body have "key = k" "q' = q"
      by (auto simp: perform_transcription_eq lift_def split: sum.splits)
    with False K RA U Q body show ?thesis
      by (auto simp: perform_transcription_eq lift_def split: sum.splits)
  qed
qed

subsection \<open>The parser of the specification\<close>

lemma json_candidates_split:
  assumes "(a, c, b) \<in> set (json_candidates text)"
  shows "text = a @ c @ b"
proof -
  from assms obtain i j where ij: "i \<le> j"
    and acb: "a = take i text" "c = take (Suc j - i) (drop i text)" "b = drop (Suc j) text"
    by (auto simp: json_candidates_def split: if_splits)
  have "drop (Suc j) text = drop (Suc j - i) (drop i text)" using ij by simp
  then have "c @ b = drop i text" using acb by (metis append_take_drop_id)
  then show ?thesis using acb by (metis append_take_drop_id)
qed

lemma first_json_object_None:
  "(\<forall>(a, j, b) \<in> set cands. \<forall>items. json_loads j \<noteq> Inr (PDict items)) \<Longrightarrow>
     first_json_object json_loads cands = None"
  by (induction cands) (auto split: sum.splits pyval.splits)

lemma apply_legacy_patterns_none:
  "(\<forall>(pattern, key, v) \<in> set pats. \<not> str_in pattern text) \<Longrightarrow>
     apply_legacy_patterns pats config text = (config, text)"
  by (induction pats) auto

subsection \<open>Evaluation\<close>

lemmas run_defs =
  create_transcription_def transcription_body_def build_request_def extract_api_key_def
  resolve_audio_def init_client_eq perform_transcription_eq read_and_upload_eq
  base_params_def merge_params_def drop_none_def get_speaker_labels_def
  lift_def ret_def raise_def transcription_error_def classify_error_def
  format_openai_error_def internal_server_error_def invalid_model_error_def
  missing_audio_input_def str_exn_def lower_def lower_char_def char_of_def bit_Suc_0_iff
  example_env_def url_request_def example_file_def

subsection \<open>Substrings and the path to the transcription call\<close>

lemma startswith_iff: "startswith s p \<longleftrightarrow> (\<exists>t. s = p @ t)"
  by (induction s p rule: startswith.induct) auto

lemma str_in_iff: "str_in sub s \<longleftrightarrow> (\<exists>ps ss. s = ps @ sub @ ss)"
proof (induction s)
  case Nil
  then show ?case by auto
next
  case (Cons c cs)
  show ?case
  proof
    assume "str_in sub (c # cs)"
    then consider "startswith (c # cs) sub" | "str_in sub cs" by auto
    then show "\<exists>ps ss. c # cs = ps @ sub @ ss"
    proof cases
      case 1
      then obtain t where "c # cs = sub @ t" by (auto simp: startswith_iff)
      then have "c # cs = [] @ sub @ t" by simp
      then show ?thesis by blast
    next
      case 2
      then obtain ps ss where "cs = ps @ sub @ ss" using Cons.IH by blast
      then have "c # cs = (c # ps) @ sub @ ss" by simp
      then show ?thesis by blast
    qed
  next
    assume "\<exists>ps ss. c # cs = ps @ sub @ ss"
    then obtain ps ss where e: "c # cs = ps @ sub @ ss" by blast
    show "str_in sub (c # cs)"
    proof (cases ps)
      case Nil
      with e have "startswith (c # cs) sub" by (auto simp: startswith_iff)
      then show ?thesis by simp
    next
      case (Cons a as)
      with e have "cs = as @ sub @ ss" by simp
      then have "str_in sub cs" using Cons.IH by blast
      then show ?thesis by simp
    qed
  qed
qed

lemma transmitted_request:
  assumes "Transcribe k q \<in> set (fst (create_transcription env rq))"
  shows "\<exists>u cfg cleaned lc sm wb.
           parse_prompt_for_config env (prompt rq) = Inr (cfg, cleaned) \<and>
           AssemblyAITranscriptionRequest env
             (drop_none (merge_params
                (base_params u lc sm wb (get_speaker_labels cfg)) cfg)) = Inr q"
proof -
  from assms have "Transcribe k q \<in> set (fst (transcription_body env rq))"
    by (simp add: create_transcription_def fst_outer_boundary)
  then obtain u where "build_request env rq u = Inr q"
    using body_reaches_transcribe [of k q env rq] by auto
  from build_request_Inr [OF this] obtain cfg cleaned lc sm wb where
    "parse_prompt_for_config env (prompt rq) = Inr (cfg, cleaned)"
    "AssemblyAITranscriptionRequest env
       (drop_none (merge_params
          (base_params u lc sm wb (get_speaker_labels cfg)) cfg)) = Inr q"
    by (elim exE conjE)
  then show ?thesis by (intro exI conjI)
qed

lemma transcription_failure:
  assumes "Transcribe k q \<in> set (fst (create_transcription env rq))"
    and "transcribe env k q = Inl e"
  shows "snd (create_transcription env rq) = Inl (transcription_error (str_exn env e))"
proof -
  from assms(1) have "Transcribe k q \<in> set (fst (transcription_body env rq))"
    by (simp add: create_transcription_def fst_outer_boundary)
  then have "snd (transcription_body env rq) = Inl (transcription_error (str_exn env e))"
    using body_reaches_transcribe [of k q env rq] assms(2) by auto
  then show ?thesis
    by (simp add: create_transcription_def snd_outer_boundary transcription_error_def
        split: prod.splits)
qed

lemma success_builds_request:
  assumes "snd (transcription_body env rq) = Inr out"
  shows "\<exists>u q. build_request env rq u = Inr q"
  using assms
  by (auto simp: transcription_body_def snd_bind_io lift_def split: sum.splits)

lemma result_formatted:
  "(\<exists>out. snd (create_transcription env rq) = Inr out) \<or>
   (\<exists>h. snd (create_transcription env rq) = Inl (HTTPException h))"
  by (auto simp: create_transcription_def snd_outer_boundary internal_server_error_def
      split: sum.splits exn.splits)

section \<open>The error translator\<close>

text \<open>
  Claim C1. The message of a failed transcription is put into exactly one category by
  case-insensitive substring matching, in the order timeout, invalid or bad request,
  unauthorized, not found, and api error for the rest, with the statuses 408, 400, 401, 404
  and 500; a keyword matches when it is a substring of the lowered message. A message with
  both \<open>timeout\<close> and \<open>unauthorized\<close> is a timeout. A request
  whose transcription call fails ends with the HTTP error of the category of the failure's
  message.
\<close>

theorem error_translator_priority:
  "(str_in ''timeout'' (lower m) \<longrightarrow>
      classify_error m = (408, ''timeout_error'', ''transcription_timeout'')) \<and>
   (\<not> str_in ''timeout'' (lower m) \<and>
    (str_in ''invalid'' (lower m) \<or> str_in ''bad request'' (lower m)) \<longrightarrow>
      classify_error m = (400, ''invalid_request_error'', ''invalid_audio'')) \<and>
   (\<not> str_in ''timeout'' (lower m) \<and> \<not> str_in ''invalid'' (lower m) \<and>
    \<not> str_in ''bad request'' (lower m) \<and> str_in ''unauthorized'' (lower m) \<longrightarrow>
      classify_error m = (401, ''authentication_error'', ''invalid_api_key'')) \<and>
   (\<not> str_in ''timeout'' (lower m) \<and> \<not> str_in ''invalid'' (lower m) \<and>
    \<not> str_in ''bad request'' (lower m) \<and> \<not> str_in ''unauthorized'' (lower m) \<and>
    str_in ''not found'' (lower m) \<longrightarrow>
      classify_error m = (404, ''not_found_error'', ''audio_not_found'')) \<and>
   (\<not> str_in ''timeout'' (lower m) \<and> \<not> str_in ''invalid'' (lower m) \<and>
    \<not> str_in ''bad request'' (lower m) \<and> \<not> str_in ''unauthorized'' (lower m) \<and>
    \<not> str_in ''not found'' (lower m) \<longrightarrow>
      classify_error m = (500, ''api_error'', ''transcription_failed'')) \<and>
   (lower m = lower m' \<longrightarrow> classify_error m = classify_error m') \<and>
   (str_in w (lower m) \<longleftrightarrow> (\<exists>before after. lower m = before @ w @ after)) \<and>
   classify_error ''Timeout while unauthorized'' =
     (408, ''timeout_error'', ''transcription_timeout'') \<and>
   (Transcribe k q \<in> set (fst (create_transcription env rq)) \<and> transcribe env k q = Inl e \<longrightarrow>
      snd (create_transcription env rq) =
        Inl (HTTPException \<lparr>status_code = fst (classify_error (str_exn env e)),
          detail = \<lparr>message = str_exn env e,
            error_type = fst (snd (classify_error (str_exn env e))),
            code = Some (snd (snd (classify_error (str_exn env e))))\<rparr>\<rparr>))"
proof (intro conjI impI)
  show "classify_error ''Timeout while unauthorized'' =
     (408, ''timeout_error'', ''transcription_timeout'')"
    by (simp add: classify_error_def lower_def lower_char_def char_of_def bit_Suc_0_iff)
next
  assume "Transcribe k q \<in> set (fst (create_transcription env rq)) \<and> transcribe env k q = Inl e"
  then have "snd (create_transcription env rq) = Inl (transcription_error (str_exn env e))"
    using transcription_failure [of k q env rq e] by simp
  then show "snd (create_transcription env rq) =
        Inl (HTTPException \<lparr>status_code = fst (classify_error (str_exn env e)),
          detail = \<lparr>message = str_exn env e,
            error_type = fst (snd (classify_error (str_exn env e))),
            code = Some (snd (snd (classify_error (str_exn env e))))\<rparr>\<rparr>)"
    by (simp add: transcription_error_def format_openai_error_def split: prod.splits)
next
  show "str_in w (lower m) \<longleftrightarrow> (\<exists>before after. lower m = before @ w @ after)"
    by (rule str_in_iff)
qed (simp_all add: classify_error_def)

theorem error_translator_priority_witness:
  "classify_error ''Request TIMEOUT (unauthorized)'' =
     (408, ''timeout_error'', ''transcription_timeout'') \<and>
   classify_error ''Bad Request: unauthorized'' =
     (400, ''invalid_request_error'', ''invalid_audio'') \<and>
   classify_error ''Unauthorized: key not found'' =
     (401, ''authentication_error'', ''invalid_api_key'') \<and>
   classify_error ''Transcript Not Found'' = (404, ''not_found_error'', ''audio_not_found'') \<and>
   classify_error ''connection reset'' = (500, ''api_error'', ''transcription_failed'') \<and>
   classify_error ''REQUEST TIMEOUT'' = classify_error ''request timeout'' \<and>
   Transcribe ''sk-test''
     [Some (PStr ''https://x.com/a.mp3''), None, Some (PStr ''best''), Some (PList []),
      Some (PBool False), Some (PBool True), Some (PBool True)]
     \<in> set (fst (create_transcription
         (example_env\<lparr>transcribe := \<lambda>k q. Inl (OtherException ''Request timeout'')\<rparr>)
         url_request)) \<and>
   snd (create_transcription
         (example_env\<lparr>transcribe := \<lambda>k q. Inl (OtherException ''Request timeout'')\<rparr>)
         url_request) =
     Inl (HTTPException \<lparr>status_code = 408,
       detail = \<lparr>message = ''Request timeout'', error_type = ''timeout_error'',
         code = Some ''transcription_timeout''\<rparr>\<rparr>)"
proof -
  let ?env = "example_env\<lparr>transcribe := \<lambda>k q. Inl (OtherException ''Request timeout'')\<rparr>"
  let ?q = "[Some (PStr ''https://x.com/a.mp3''), None, Some (PStr ''best''), Some (PList []),
      Some (PBool False), Some (PBool True), Some (PBool True)]"
  have ev: "str_in ''timeout'' (lower ''Request TIMEOUT (unauthorized)'')"
    "\<not> str_in ''timeout'' (lower ''Bad Request: unauthorized'')"
    "str_in ''bad request'' (lower ''Bad Request: unauthorized'')"
    "\<not> str_in ''timeout'' (lower ''Unauthorized: key not found'')"
    "\<not> str_in ''invalid'' (lower ''Unauthorized: key not found'')"
    "\<not> str_in ''bad request'' (lower ''Unauthorized: key not found'')"
    "str_in ''unauthorized'' (lower ''Unauthorized: key not found'')"
    "\<not> str_in ''timeout'' (lower ''Transcript Not Found'')"
    "\<not> str_in ''invalid'' (lower ''Transcript Not Found'')"
    "\<not> str_in ''bad request'' (lower ''Transcript Not Found'')"
    "\<not> str_in ''unauthorized'' (lower ''Transcript Not Found'')"
    "str_in ''not found'' (lower ''Transcript Not Found'')"
    "\<not> str_in ''timeout'' (lower ''connection reset'')"
    "\<not> str_in ''invalid'' (lower ''connection reset'')"
    "\<not> str_in ''bad request'' (lower ''connection reset'')"
    "\<not> str_in ''unauthorized'' (lower ''connection reset'')"
    "\<not> str_in ''not found'' (lower ''connection reset'')"
    "lower ''REQUEST TIMEOUT'' = lower ''request timeout''"
    by (simp_all add: lower_def lower_char_def char_of_def bit_Suc_0_iff)
  have tr: "Transcribe ''sk-test'' ?q \<in> set (fst (create_transcription ?env url_request))"
    "transcribe ?env ''sk-test'' ?q = Inl (OtherException ''Request timeout'')"
    "str_exn ?env (OtherException ''Request timeout'') = ''Request timeout''"
    "classify_error ''Request timeout'' = (408, ''timeout_error'', ''transcription_timeout'')"
    by (simp_all add: run_defs)
  note T = error_translator_priority [where m' = "''request timeout''" and k = "''sk-test''"
    and q = ?q and env = ?env and rq = url_request and e = "OtherException ''Request timeout''"]
  have 1: "classify_error ''Request TIMEOUT (unauthorized)'' =
     (408, ''timeout_error'', ''transcription_timeout'')"
    using T [where m = "''Request TIMEOUT (unauthorized)''"] ev by simp
  have 2: "classify_error ''Bad Request: unauthorized'' =
     (400, ''invalid_request_error'', ''invalid_audio'')"
    using T [where m = "''Bad Request: unauthorized''"] ev by simp
  have 3: "classify_error ''Unauthorized: key not found'' =
     (401, ''authentication_error'', ''invalid_api_key'')"
    using T [where m = "''Unauthorized: key not found''"] ev by simp
  have 4: "classify_error ''Transcript Not Found'' =
     (404, ''not_found_error'', ''audio_not_found'')"
    using T [where m = "''Transcript Not Found''"] ev by simp
  have 5: "classify_error ''connection reset'' = (500, ''api_error'', ''transcription_failed'')"
    using T [where m = "''connection reset''"] ev by simp
  have 6: "classify_error ''REQUEST TIMEOUT'' = classify_error ''request timeout''"
    using T [where m = "''REQUEST TIMEOUT''"] ev by simp
  have 7: "snd (create_transcription ?env url_request) =
     Inl (HTTPException \<lparr>status_code = 408,
       detail = \<lparr>message = ''Request timeout'', error_type = ''timeout_error'',
         code = Some ''transcription_timeout''\<rparr>\<rparr>)"
    using T [where m = "''REQUEST TIMEOUT''"] tr by simp
  from 1 2 3 4 5 6 7 tr(1) show ?thesis by simp
qed

section \<open>The prompt configuration parser\<close>

text \<open>
  Claim C7. The prompt configuration parser never raises, whatever the prompt and whatever
  the decoder does; and for a prompt of which no substring decodes to a JSON object and in
  which no legacy pattern occurs, it returns the empty configuration and the prompt
  unchanged. The parser is the one modelled from the specification.
\<close>

theorem prompt_parser_total_identity:
  "(\<exists>config residual. spec_parse_prompt_for_config json_loads pats p = Inr (config, residual)) \<and>
   ((\<forall>a j b items. text = a @ j @ b \<longrightarrow> json_loads j \<noteq> Inr (PDict items)) \<and>
    (\<forall>(pattern, key, v) \<in> set pats. \<not> str_in pattern text) \<longrightarrow>
      spec_parse_prompt_for_config json_loads pats (Some text) = Inr (Map.empty, Some text)) \<and>
   spec_parse_prompt_for_config json_loads pats None = Inr (Map.empty, None)"
proof (intro conjI impI)
  show "\<exists>config residual. spec_parse_prompt_for_config json_loads pats p = Inr (config, residual)"
    by (auto simp: spec_parse_prompt_for_config_def split: option.splits prod.splits)
next
  assume h: "(\<forall>a j b items. text = a @ j @ b \<longrightarrow> json_loads j \<noteq> Inr (PDict items)) \<and>
    (\<forall>(pattern, key, v) \<in> set pats. \<not> str_in pattern text)"
  then have "\<forall>(a, j, b) \<in> set (json_candidates text). \<forall>items. json_loads j \<noteq> Inr (PDict items)"
    using json_candidates_split by blast
  then have "first_json_object json_loads (json_candidates text) = None"
    by (rule first_json_object_None)
  moreover have "apply_legacy_patterns pats Map.empty text = (Map.empty, text)"
    using h by (simp add: apply_legacy_patterns_none)
  ultimately show "spec_parse_prompt_for_config json_loads pats (Some text) = Inr (Map.empty, Some text)"
    by (simp add: spec_parse_prompt_for_config_def)
next
  show "spec_parse_prompt_for_config json_loads pats None = Inr (Map.empty, None)"
    by (simp add: spec_parse_prompt_for_config_def)
qed

theorem prompt_parser_total_identity_witness:
  "\<not> str_in ''{}'' ''meeting notes {draft}'' \<and>
   \<not> str_in ''[diarize]'' ''meeting notes {draft}'' \<and>
   spec_parse_prompt_for_config example_json_loads
     [(''[diarize]'', ''speaker_labels'', PBool True)] (Some ''meeting notes {draft}'') =
     Inr (Map.empty, Some ''meeting notes {draft}'') \<and>
   spec_parse_prompt_for_config example_json_loads
     [(''[diarize]'', ''speaker_labels'', PBool True)] None = Inr (Map.empty, None)"
proof -
  let ?text = "''meeting notes {draft}''"
  let ?pats = "[(''[diarize]'', ''speaker_labels'', PBool True)]"
  have n1: "\<not> str_in ''{}'' ?text" by simp
  have n2: "\<not> str_in ''[diarize]'' ?text" by simp
  have h1: "\<forall>a j b items. ?text = a @ j @ b \<longrightarrow> example_json_loads j \<noteq> Inr (PDict items)"
  proof (intro allI impI)
    fix a j b items
    assume "?text = a @ j @ b"
    then have sub: "str_in j ?text" unfolding str_in_iff by blast
    show "example_json_loads j \<noteq> Inr (PDict items)"
    proof
      assume "example_json_loads j = Inr (PDict items)"
      then have "j = ''{}''" by (simp add: example_json_loads_def split: if_splits)
      with sub n1 show False by simp
    qed
  qed
  have h2: "\<forall>(pattern, key, v) \<in> set ?pats. \<not> str_in pattern ?text" using n2 by simp
  from prompt_parser_total_identity [of example_json_loads ?pats None ?text] h1 h2 n1 n2
  show ?thesis by blast
qed

section \<open>Validation of the request\<close>

text \<open>
  A request without an authorization header is refused with the error type
  \<open>invalid_request_error\<close>, which is not \<open>authentication_error\<close>.
\<close>

theorem missing_authorization_type:
  "authorization (url_request\<lparr>authorization := None\<rparr>) = None \<and>
   create_transcription example_env (url_request\<lparr>authorization := None\<rparr>) =
     ([], Inl (HTTPException \<lparr>status_code = 401,
        detail = \<lparr>message = ''No authorization header provided'',
          error_type = ''invalid_request_error'',
          code = Some ''missing_authorization''\<rparr>\<rparr>)) \<and>
   ''invalid_request_error'' \<noteq> ''authentication_error''"
  by (simp add: run_defs)

text \<open>
  Claim C3, amended. A request whose authorization header is absent or empty ends with
  status 401, code \<open>missing_authorization\<close> and error type \<open>invalid_request_error\<close>, and
  makes no call on the provider client. A request whose header is exactly the prefix
  \<open>Bearer \<close> ends with status 401, code \<open>invalid_authorization\<close> and the same error type.
  Every other header yields a key that is not empty: the header without the prefix, or the
  header itself.
\<close>

theorem authorization_errors:
  "(authorization rq = None \<or> authorization rq = Some [] \<longrightarrow>
      create_transcription env rq =
        ([], Inl (HTTPException \<lparr>status_code = 401,
           detail = \<lparr>message = ''No authorization header provided'',
             error_type = ''invalid_request_error'',
             code = Some ''missing_authorization''\<rparr>\<rparr>))) \<and>
   (authorization rq = Some ''Bearer '' \<longrightarrow>
      create_transcription env rq =
        ([], Inl (HTTPException \<lparr>status_code = 401,
           detail = \<lparr>message = ''Invalid authorization header format'',
             error_type = ''invalid_request_error'',
             code = Some ''invalid_authorization''\<rparr>\<rparr>))) \<and>
   (authorization rq = Some h \<and> h \<noteq> [] \<and> h \<noteq> ''Bearer '' \<longrightarrow>
      (\<exists>api_key. extract_api_key (authorization rq) = Inr api_key \<and> api_key \<noteq> [] \<and>
         api_key = (if startswith h ''Bearer '' then drop 7 h else h)))"
  by (auto simp: create_transcription_def transcription_body_def extract_api_key_def
      format_openai_error_def startswith_iff)

theorem authorization_errors_witness:
  "create_transcription example_env (url_request\<lparr>authorization := None\<rparr>) =
     ([], Inl (HTTPException \<lparr>status_code = 401,
        detail = \<lparr>message = ''No authorization header provided'',
          error_type = ''invalid_request_error'',
          code = Some ''missing_authorization''\<rparr>\<rparr>)) \<and>
   create_transcription example_env (url_request\<lparr>authorization := Some ''Bearer ''\<rparr>) =
     ([], Inl (HTTPException \<lparr>status_code = 401,
        detail = \<lparr>message = ''Invalid authorization header format'',
          error_type = ''invalid_request_error'',
          code = Some ''invalid_authorization''\<rparr>\<rparr>)) \<and>
   extract_api_key (authorization url_request) = Inr ''sk-test''"
  using authorization_errors [of "url_request\<lparr>authorization := None\<rparr>" example_env h]
    authorization_errors [of "url_request\<lparr>authorization := Some ''Bearer ''\<rparr>" example_env h]
    authorization_errors [of url_request example_env "''Bearer sk-test''"]
  by (simp add: url_request_def)

text \<open>
  A request with both an uploaded file and an audio URL is served: the file is uploaded and
  transcribed.
\<close>

theorem both_sources_accepted:
  "file (url_request\<lparr>file := Some example_file\<rparr>) = Some example_file \<and>
   audio_url (url_request\<lparr>file := Some example_file\<rparr>) = Some ''https://x.com/a.mp3'' \<and>
   create_transcription example_env (url_request\<lparr>file := Some example_file\<rparr>) =
     ([Construct ''sk-test'', Upload ''sk-test'' ''RIFF'' (Some ''a.mp3''),
       Transcribe ''sk-test''
         [Some (PStr ''https://cdn.example/upload/1''), None, Some (PStr ''best''),
          Some (PList []), Some (PBool False), Some (PBool True), Some (PBool True)]],
      Inr ''hello'')"
  by (simp add: run_defs)

text \<open>
  Claim C2, amended. A request with a key, no uploaded file and no audio URL (or an empty
  one) ends with status 400, error type \<open>invalid_request_error\<close> and code
  \<open>missing_audio_input\<close>, and makes no call on the provider client. A request with an
  uploaded file is not refused for carrying an audio URL as well: the URL is ignored, and
  the outcome is that of the same request with any other URL or none.
\<close>

theorem missing_audio_rejected:
  "(extract_api_key (authorization rq) = Inr k \<and> file rq = None \<and>
    (audio_url rq = None \<or> audio_url rq = Some []) \<longrightarrow>
      create_transcription env rq =
        ([], Inl (HTTPException \<lparr>status_code = 400,
           detail = \<lparr>message = ''Either '' @ [CHR 0x27] @ ''file'' @ [CHR 0x27] @ '' or '' @
               [CHR 0x27] @ ''audio_url'' @ [CHR 0x27] @ '' parameter is required'',
             error_type = ''invalid_request_error'',
             code = Some ''missing_audio_input''\<rparr>\<rparr>))) \<and>
   (file rq \<noteq> None \<longrightarrow>
      create_transcription env (rq\<lparr>audio_url := u\<rparr>) = create_transcription env rq)"
  by (auto simp: create_transcription_def transcription_body_def build_request_def
      resolve_audio_def raise_def missing_audio_input_def format_openai_error_def
      cong: if_cong sum.case_cong prod.case_cong)

theorem missing_audio_rejected_witness:
  "extract_api_key (authorization (url_request\<lparr>audio_url := None\<rparr>)) = Inr ''sk-test'' \<and>
   create_transcription example_env (url_request\<lparr>audio_url := None\<rparr>) =
     ([], Inl (HTTPException \<lparr>status_code = 400,
        detail = \<lparr>message = ''Either '' @ [CHR 0x27] @ ''file'' @ [CHR 0x27] @ '' or '' @
            [CHR 0x27] @ ''audio_url'' @ [CHR 0x27] @ '' parameter is required'',
          error_type = ''invalid_request_error'',
          code = Some ''missing_audio_input''\<rparr>\<rparr>)) \<and>
   create_transcription example_env
     (url_request\<lparr>file := Some example_file, audio_url := None\<rparr>) =
   create_transcription example_env (url_request\<lparr>file := Some example_file\<rparr>)"
proof -
  have key: "extract_api_key (authorization (url_request\<lparr>audio_url := None\<rparr>)) = Inr ''sk-test''"
    by (simp add: url_request_def extract_api_key_def)
  have f: "file (url_request\<lparr>audio_url := None\<rparr>) = None"
    "audio_url (url_request\<lparr>audio_url := None\<rparr>) = None"
    "file (url_request\<lparr>file := Some example_file\<rparr>) \<noteq> None"
    by (simp_all add: url_request_def)
  from missing_audio_rejected [of "url_request\<lparr>audio_url := None\<rparr>" "''sk-test''" example_env]
    missing_audio_rejected [of "url_request\<lparr>file := Some example_file\<rparr>" k example_env None]
    key f
  show ?thesis by simp
qed

text \<open>
  Claim C6. For a request with a non-empty model for which the model mapping returns
  None, the transcription call is never made and the request ends with an HTTP error. When
  the steps before the model check pass (the key, the audio source, the prompt parser, the
  language mapping and the word boost), the request ends with status 400, error type
  \<open>invalid_request_error\<close> and code \<open>invalid_model\<close>, having made the calls of the
  audio step only.
\<close>

theorem invalid_model_rejected:
  "(model rq \<noteq> [] \<and> map_openai_model_to_speech_model env (model rq) = Inr PNone \<longrightarrow>
      (\<forall>key q. Transcribe key q \<notin> set (fst (create_transcription env rq))) \<and>
      (\<exists>h. snd (create_transcription env rq) = Inl (HTTPException h))) \<and>
   (model rq \<noteq> [] \<and> map_openai_model_to_speech_model env (model rq) = Inr PNone \<and>
    extract_api_key (authorization rq) = Inr api_key \<and>
    resolve_audio env api_key (file rq) (audio_url rq) = (calls, Inr final_audio_url) \<and>
    parse_prompt_for_config env (prompt rq) = Inr (config_dict, cleaned_prompt) \<and>
    map_language_code env (language rq) = Inr language_code \<and>
    parse_word_boost env cleaned_prompt = Inr word_boost \<longrightarrow>
      create_transcription env rq =
        (calls, Inl (HTTPException \<lparr>status_code = 400,
           detail = \<lparr>message = ''Invalid model '' @ [CHR 0x27] @ model rq @ [CHR 0x27] @
               ''. Valid AssemblyAI speech models are: best, slam-1, universal'',
             error_type = ''invalid_request_error'',
             code = Some ''invalid_model''\<rparr>\<rparr>)))"
proof (intro conjI impI allI)
  fix key q
  assume a: "model rq \<noteq> [] \<and> map_openai_model_to_speech_model env (model rq) = Inr PNone"
  show "Transcribe key q \<notin> set (fst (create_transcription env rq))"
  proof
    assume "Transcribe key q \<in> set (fst (create_transcription env rq))"
    then have "Transcribe key q \<in> set (fst (transcription_body env rq))"
      by (simp add: create_transcription_def fst_outer_boundary)
    then obtain u where "build_request env rq u = Inr q"
      using body_reaches_transcribe [of key q env rq] by auto
    from build_request_Inr [OF this] a show False by auto
  qed
next
  assume a: "model rq \<noteq> [] \<and> map_openai_model_to_speech_model env (model rq) = Inr PNone"
  have "\<not> (\<exists>out. snd (create_transcription env rq) = Inr out)"
  proof
    assume "\<exists>out. snd (create_transcription env rq) = Inr out"
    then obtain out where "snd (transcription_body env rq) = Inr out"
      by (auto simp: create_transcription_def snd_outer_boundary split: sum.splits exn.splits)
    then obtain u q where "build_request env rq u = Inr q"
      using success_builds_request [of env rq out] by auto
    from build_request_Inr [OF this] a show False by auto
  qed
  then show "\<exists>h. snd (create_transcription env rq) = Inl (HTTPException h)"
    using result_formatted [of env rq] by blast
next
  assume "model rq \<noteq> [] \<and> map_openai_model_to_speech_model env (model rq) = Inr PNone \<and>
    extract_api_key (authorization rq) = Inr api_key \<and>
    resolve_audio env api_key (file rq) (audio_url rq) = (calls, Inr final_audio_url) \<and>
    parse_prompt_for_config env (prompt rq) = Inr (config_dict, cleaned_prompt) \<and>
    map_language_code env (language rq) = Inr language_code \<and>
    parse_word_boost env cleaned_prompt = Inr word_boost"
  then show "create_transcription env rq =
        (calls, Inl (HTTPException \<lparr>status_code = 400,
           detail = \<lparr>message = ''Invalid model '' @ [CHR 0x27] @ model rq @ [CHR 0x27] @
               ''. Valid AssemblyAI speech models are: best, slam-1, universal'',
             error_type = ''invalid_request_error'',
             code = Some ''invalid_model''\<rparr>\<rparr>))"
    by (simp add: create_transcription_def transcription_body_def build_request_def
        invalid_model_error_def format_openai_error_def lift_def)
qed

theorem invalid_model_rejected_witness:
  "model (url_request\<lparr>model := ''invalid-model-xyz''\<rparr>) \<noteq> [] \<and>
   map_openai_model_to_speech_model example_env
     (model (url_request\<lparr>model := ''invalid-model-xyz''\<rparr>)) = Inr PNone \<and>
   create_transcription example_env (url_request\<lparr>model := ''invalid-model-xyz''\<rparr>) =
     ([], Inl (HTTPException \<lparr>status_code = 400,
        detail = \<lparr>message = ''Invalid model '' @ [CHR 0x27] @ ''invalid-model-xyz'' @
            [CHR 0x27] @ ''. Valid AssemblyAI speech models are: best, slam-1, universal'',
          error_type = ''invalid_request_error'',
          code = Some ''invalid_model''\<rparr>\<rparr>)) \<and>
   (\<forall>key q. Transcribe key q
      \<notin> set (fst (create_transcription example_env
           (url_request\<lparr>file := Some example_file, model := ''invalid-model-xyz''\<rparr>)))) \<and>
   (\<exists>h. snd (create_transcription example_env
           (url_request\<lparr>file := Some example_file, model := ''invalid-model-xyz''\<rparr>)) =
      Inl (HTTPException h))"
proof -
  let ?rq = "url_request\<lparr>model := ''invalid-model-xyz''\<rparr>"
  let ?rf = "url_request\<lparr>file := Some example_file, model := ''invalid-model-xyz''\<rparr>"
  have h: "model ?rq \<noteq> []" "model ?rq = ''invalid-model-xyz''"
    "map_openai_model_to_speech_model example_env (model ?rq) = Inr PNone"
    "extract_api_key (authorization ?rq) = Inr ''sk-test''"
    "resolve_audio example_env ''sk-test'' (file ?rq) (audio_url ?rq) =
       ([], Inr ''https://x.com/a.mp3'')"
    "parse_prompt_for_config example_env (prompt ?rq) = Inr (Map.empty, None)"
    "map_language_code example_env (language ?rq) = Inr PNone"
    "parse_word_boost example_env None = Inr (PList [])"
    by (simp_all add: run_defs)
  have g: "model ?rf \<noteq> []"
    "map_openai_model_to_speech_model example_env (model ?rf) = Inr PNone"
    by (simp_all add: run_defs)
  from invalid_model_rejected [of ?rq example_env "''sk-test''" "[]" "''https://x.com/a.mp3''"
      Map.empty None PNone "PList []"] h
  have 1: "create_transcription example_env ?rq =
     ([], Inl (HTTPException \<lparr>status_code = 400,
        detail = \<lparr>message = ''Invalid model '' @ [CHR 0x27] @ ''invalid-model-xyz'' @
            [CHR 0x27] @ ''. Valid AssemblyAI speech models are: best, slam-1, universal'',
          error_type = ''invalid_request_error'',
          code = Some ''invalid_model''\<rparr>\<rparr>))"
    by simp
  from invalid_model_rejected [of ?rf example_env "''sk-test''" "[]" "''https://x.com/a.mp3''"
      Map.empty None PNone "PList []"] g
  have 2: "(\<forall>key q. Transcribe key q \<notin> set (fst (create_transcription example_env ?rf))) \<and>
    (\<exists>h. snd (create_transcription example_env ?rf) = Inl (HTTPException h))"
    by blast
  from 1 2 h(1,3) show ?thesis by blast
qed

lemma resolve_audio_url_calls: "fst (resolve_audio env key None uo) = []"
  by (auto simp: resolve_audio_def lift_def raise_def ret_def fst_bind_io
      split: option.splits sum.splits)

lemma construct_key:
  assumes "Construct k \<in> set (fst (transcription_body env rq))"
  shows "extract_api_key (authorization rq) = Inr k"
proof -
  obtain key where K: "extract_api_key (authorization rq) = Inr key"
    using assms by (cases "extract_api_key (authorization rq)") (auto simp: transcription_body_def)
  have "key = k"
    using assms K
    by (auto simp: transcription_body_def resolve_audio_def init_client_eq read_and_upload_eq
        perform_transcription_eq fst_bind_io snd_bind_io lift_def ret_def raise_def
        split: sum.splits option.splits if_splits)
  with K show ?thesis by simp
qed

text \<open>
  Claim C10. When the constructor of the provider client is called in a request and raises
  \<^verbatim>\<open>ValueError\<close>, the request ends with status 500, error type \<open>api_error\<close> and code
  \<open>missing_api_key\<close>, and the construction is the only call made: no upload and no
  transcription. The client is built before the upload when a file is present (line 124)
  and before the transcription otherwise (line 239); the statement covers both.
\<close>

theorem client_construction_failure:
  "AssemblyAIClient env k = Inl (ValueError m) \<and>
   Construct k \<in> set (fst (create_transcription env rq)) \<longrightarrow>
     create_transcription env rq =
       ([Construct k], Inl (HTTPException \<lparr>status_code = 500,
          detail = \<lparr>message = ''AssemblyAI API key not configured'',
            error_type = ''api_error'', code = Some ''missing_api_key''\<rparr>\<rparr>))"
proof
  let ?err = "HTTPException \<lparr>status_code = 500,
          detail = \<lparr>message = ''AssemblyAI API key not configured'',
            error_type = ''api_error'', code = Some ''missing_api_key''\<rparr>\<rparr>"
  assume a: "AssemblyAIClient env k = Inl (ValueError m) \<and>
    Construct k \<in> set (fst (create_transcription env rq))"
  then have ic: "init_client env k = ([Construct k], Inl ?err)"
    by (simp add: init_client_eq format_openai_error_def)
  from a have c: "Construct k \<in> set (fst (transcription_body env rq))"
    by (simp add: create_transcription_def fst_outer_boundary)
  then have K: "extract_api_key (authorization rq) = Inr k"
    by (rule construct_key)
  have body: "transcription_body env rq = ([Construct k], Inl ?err)"
  proof (cases "file rq")
    case (Some f)
    with K ic show ?thesis
      by (simp add: transcription_body_def resolve_audio_def)
  next
    case None
    obtain cs r where RA: "resolve_audio env k None (audio_url rq) = (cs, r)"
      by fastforce
    then have cs: "cs = []"
      using resolve_audio_url_calls [of env k "audio_url rq"] by simp
    obtain u where U: "r = Inr u"
      using c K None RA cs by (cases r) (auto simp: transcription_body_def)
    obtain q where Q: "build_request env rq u = Inr q"
      using c K None RA cs U
      by (cases "build_request env rq u") (auto simp: transcription_body_def)
    from K None RA cs U Q ic show ?thesis
      by (simp add: transcription_body_def)
  qed
  then show "create_transcription env rq = ([Construct k], Inl ?err)"
    by (simp add: create_transcription_def)
qed

theorem client_construction_failure_witness:
  "Construct ''sk-test'' \<in> set (fst (create_transcription
      (example_env\<lparr>AssemblyAIClient := \<lambda>k. Inl (ValueError ''API key is required'')\<rparr>)
      url_request)) \<and>
   create_transcription
      (example_env\<lparr>AssemblyAIClient := \<lambda>k. Inl (ValueError ''API key is required'')\<rparr>)
      url_request =
     ([Construct ''sk-test''], Inl (HTTPException \<lparr>status_code = 500,
        detail = \<lparr>message = ''AssemblyAI API key not configured'',
          error_type = ''api_error'', code = Some ''missing_api_key''\<rparr>\<rparr>)) \<and>
   Construct ''sk-test'' \<in> set (fst (create_transcription
      (example_env\<lparr>AssemblyAIClient := \<lambda>k. Inl (ValueError ''API key is required'')\<rparr>)
      (url_request\<lparr>file := Some example_file\<rparr>))) \<and>
   create_transcription
      (example_env\<lparr>AssemblyAIClient := \<lambda>k. Inl (ValueError ''API key is required'')\<rparr>)
      (url_request\<lparr>file := Some example_file\<rparr>) =
     ([Construct ''sk-test''], Inl (HTTPException \<lparr>status_code = 500,
        detail = \<lparr>message = ''AssemblyAI API key not configured'',
          error_type = ''api_error'', code = Some ''missing_api_key''\<rparr>\<rparr>))"
proof -
  let ?env = "example_env\<lparr>AssemblyAIClient := \<lambda>k. Inl (ValueError ''API key is required'')\<rparr>"
  let ?rf = "url_request\<lparr>file := Some example_file\<rparr>"
  have c: "AssemblyAIClient ?env ''sk-test'' = Inl (ValueError ''API key is required'')"
    "Construct ''sk-test'' \<in> set (fst (create_transcription ?env url_request))"
    "Construct ''sk-test'' \<in> set (fst (create_transcription ?env ?rf))"
    by (simp_all add: run_defs)
  from client_construction_failure [of ?env "''sk-test''" "''API key is required''" url_request]
    client_construction_failure [of ?env "''sk-test''" "''API key is required''" ?rf] c
  show ?thesis by simp
qed

section \<open>The outbound request\<close>

text \<open>
  Claim C4. In the merged parameters every key of the parsed configuration carries the
  value of the configuration, whatever the defaults hold for it; with the default
  \<open>speaker_labels\<close> false and the configuration \<open>speaker_labels\<close> true the merged value
  is true. A request that reaches the provider was built from the seven defaults merged
  with the parsed configuration, and each key of the configuration carries its configured
  value there.
\<close>

theorem config_wins_on_collision:
  "(config_dict k = Some v \<longrightarrow> merge_params base config_dict k = Some v) \<and>
   merge_params [''speaker_labels'' \<mapsto> PBool False] [''speaker_labels'' \<mapsto> PBool True]
     ''speaker_labels'' = Some (PBool True) \<and>
   (Transcribe key q \<in> set (fst (create_transcription env rq)) \<and>
    parse_prompt_for_config env (prompt rq) = Inr (config_dict, cleaned_prompt) \<and>
    config_dict k = Some v \<longrightarrow>
      (\<exists>defaults. dom defaults =
           {''audio_url'', ''language_code'', ''speech_model'', ''word_boost'',
            ''speaker_labels'', ''punctuate'', ''format_text''} \<and>
         merge_params defaults config_dict k = Some v \<and>
         AssemblyAITranscriptionRequest env (drop_none (merge_params defaults config_dict)) =
           Inr q))"
proof (intro conjI impI)
  assume a: "Transcribe key q \<in> set (fst (create_transcription env rq)) \<and>
    parse_prompt_for_config env (prompt rq) = Inr (config_dict, cleaned_prompt) \<and>
    config_dict k = Some v"
  then obtain u lc sm wb where
    q: "AssemblyAITranscriptionRequest env
       (drop_none (merge_params
          (base_params u lc sm wb (get_speaker_labels config_dict)) config_dict)) = Inr q"
    using transmitted_request [of key q env rq] by auto
  let ?defaults = "base_params u lc sm wb (get_speaker_labels config_dict)"
  have "dom ?defaults =
           {''audio_url'', ''language_code'', ''speech_model'', ''word_boost'',
            ''speaker_labels'', ''punctuate'', ''format_text''}"
    by (auto simp: base_params_def)
  moreover have "merge_params ?defaults config_dict k = Some v"
    using a by (simp add: merge_params_def)
  ultimately show "\<exists>defaults. dom defaults =
           {''audio_url'', ''language_code'', ''speech_model'', ''word_boost'',
            ''speaker_labels'', ''punctuate'', ''format_text''} \<and>
         merge_params defaults config_dict k = Some v \<and>
         AssemblyAITranscriptionRequest env (drop_none (merge_params defaults config_dict)) =
           Inr q"
    using q by blast
qed (simp_all add: merge_params_def)

theorem config_wins_on_collision_witness:
  "merge_params
     (base_params ''https://x.com/a.mp3'' PNone (PStr ''best'') (PList []) (PBool False))
     [''speaker_labels'' \<mapsto> PBool True] ''speaker_labels'' = Some (PBool True) \<and>
   Transcribe ''sk-test''
     [Some (PStr ''https://x.com/a.mp3''), None, Some (PStr ''best''), Some (PList []),
      Some (PBool True), Some (PBool True), Some (PBool True)]
     \<in> set (fst (create_transcription example_env (url_request\<lparr>prompt := Some ''diarize''\<rparr>))) \<and>
   (\<exists>defaults. dom defaults =
        {''audio_url'', ''language_code'', ''speech_model'', ''word_boost'',
         ''speaker_labels'', ''punctuate'', ''format_text''} \<and>
      merge_params defaults [''speaker_labels'' \<mapsto> PBool True] ''speaker_labels'' =
        Some (PBool True) \<and>
      AssemblyAITranscriptionRequest example_env
        (drop_none (merge_params defaults [''speaker_labels'' \<mapsto> PBool True])) =
        Inr [Some (PStr ''https://x.com/a.mp3''), None, Some (PStr ''best''), Some (PList []),
          Some (PBool True), Some (PBool True), Some (PBool True)])"
proof -
  let ?q = "[Some (PStr ''https://x.com/a.mp3''), None, Some (PStr ''best''), Some (PList []),
      Some (PBool True), Some (PBool True), Some (PBool True)]"
  let ?rq = "url_request\<lparr>prompt := Some ''diarize''\<rparr>"
  let ?cfg = "[''speaker_labels'' \<mapsto> PBool True]"
  have c: "?cfg ''speaker_labels'' = Some (PBool True)" by simp
  have t: "Transcribe ''sk-test'' ?q \<in> set (fst (create_transcription example_env ?rq))"
    by (simp add: run_defs)
  have p: "parse_prompt_for_config example_env (prompt ?rq) = Inr (?cfg, Some [])"
    by (simp add: example_env_def url_request_def)
  note T = config_wins_on_collision [of ?cfg "''speaker_labels''" "PBool True"
      "base_params ''https://x.com/a.mp3'' PNone (PStr ''best'') (PList []) (PBool False)"
      "''sk-test''" ?q example_env ?rq "Some []"]
  from T c have 1: "merge_params
     (base_params ''https://x.com/a.mp3'' PNone (PStr ''best'') (PList []) (PBool False))
     ?cfg ''speaker_labels'' = Some (PBool True)"
    by blast
  from T t p c have 2: "\<exists>defaults. dom defaults =
        {''audio_url'', ''language_code'', ''speech_model'', ''word_boost'',
         ''speaker_labels'', ''punctuate'', ''format_text''} \<and>
      merge_params defaults ?cfg ''speaker_labels'' = Some (PBool True) \<and>
      AssemblyAITranscriptionRequest example_env
        (drop_none (merge_params defaults ?cfg)) = Inr ?q"
    by blast
  from 1 2 t show ?thesis by blast
qed

text \<open>
  Claim C5. After line 229 no key is bound to None: a key that was absent or bound to None
  is absent, a key bound to any other value keeps it, and no other key appears. Every
  request that reaches the provider was built from such a dictionary. The statement is
  about the dictionary handed to \<^verbatim>\<open>AssemblyAITranscriptionRequest\<close>; that class and
  what the client sends are not among the sources.
\<close>

theorem null_keys_dropped:
  "drop_none merged k \<noteq> Some PNone \<and>
   (merged k = None \<or> merged k = Some PNone \<longrightarrow> drop_none merged k = None) \<and>
   (merged k = Some v \<and> v \<noteq> PNone \<longrightarrow> drop_none merged k = Some v) \<and>
   (drop_none merged k = Some v \<longrightarrow> merged k = Some v) \<and>
   dom (drop_none merged) = {k. \<exists>v. merged k = Some v \<and> v \<noteq> PNone} \<and>
   (Transcribe key q \<in> set (fst (create_transcription env rq)) \<longrightarrow>
      (\<exists>p. AssemblyAITranscriptionRequest env (drop_none p) = Inr q))"
proof (intro conjI impI)
  assume "Transcribe key q \<in> set (fst (create_transcription env rq))"
  from transmitted_request [OF this]
  show "\<exists>p. AssemblyAITranscriptionRequest env (drop_none p) = Inr q"
    by (elim exE conjE) (rule exI)
next
  show "dom (drop_none merged) = {k. \<exists>v. merged k = Some v \<and> v \<noteq> PNone}"
    by (auto simp: drop_none_def dom_def split: option.splits pyval.splits)
qed (auto simp: drop_none_def split: option.splits pyval.splits)

theorem null_keys_dropped_witness:
  "drop_none
     (base_params ''https://x.com/a.mp3'' PNone (PStr ''best'') (PList []) (PBool False))
     ''language_code'' = None \<and>
   drop_none
     (base_params ''https://x.com/a.mp3'' PNone (PStr ''best'') (PList []) (PBool False))
     ''speech_model'' = Some (PStr ''best'') \<and>
   drop_none
     (base_params ''https://x.com/a.mp3'' PNone (PStr ''best'') (PList []) (PBool False))
     ''custom_spelling'' = None \<and>
   Transcribe ''sk-test''
     [Some (PStr ''https://x.com/a.mp3''), None, Some (PStr ''best''), Some (PList []),
      Some (PBool False), Some (PBool True), Some (PBool True)]
     \<in> set (fst (create_transcription example_env url_request)) \<and>
   (\<exists>p. AssemblyAITranscriptionRequest example_env (drop_none p) =
      Inr [Some (PStr ''https://x.com/a.mp3''), None, Some (PStr ''best''), Some (PList []),
        Some (PBool False), Some (PBool True), Some (PBool True)])"
proof -
  let ?base = "base_params ''https://x.com/a.mp3'' PNone (PStr ''best'') (PList []) (PBool False)"
  let ?q = "[Some (PStr ''https://x.com/a.mp3''), None, Some (PStr ''best''), Some (PList []),
      Some (PBool False), Some (PBool True), Some (PBool True)]"
  have b: "?base ''language_code'' = Some PNone" "?base ''speech_model'' = Some (PStr ''best'')"
    "?base ''custom_spelling'' = None"
    by (simp_all add: base_params_def)
  have t: "Transcribe ''sk-test'' ?q \<in> set (fst (create_transcription example_env url_request))"
    by (simp add: run_defs)
  have 1: "drop_none ?base ''language_code'' = None"
    using null_keys_dropped [of ?base "''language_code''" v "''sk-test''" ?q example_env url_request] b
    by (cases "drop_none ?base ''language_code''") auto
  have 2: "drop_none ?base ''speech_model'' = Some (PStr ''best'')"
    using null_keys_dropped [of ?base "''speech_model''" "PStr ''best''" "''sk-test''" ?q
        example_env url_request] b
    by simp
  have 3: "drop_none ?base ''custom_spelling'' = None"
    using null_keys_dropped [of ?base "''custom_spelling''" v "''sk-test''" ?q example_env
        url_request] b
    by simp
  have 4: "\<exists>p. AssemblyAITranscriptionRequest example_env (drop_none p) = Inr ?q"
    using null_keys_dropped [of ?base "''speech_model''" "PStr ''best''" "''sk-test''" ?q
        example_env url_request] t
    by blast
  from 1 2 3 4 t show ?thesis by blast
qed

text \<open>
  Claim C9. Two requests that differ only in their temperature make the same calls on the
  provider client, with the same outbound request, and end with the same result. The
  temperature occurs in the endpoint only as the guard of a logger call (line 180).
\<close>

theorem temperature_ignored:
  "create_transcription env (rq\<lparr>temperature := t\<rparr>) = create_transcription env rq"
  by (simp add: create_transcription_def transcription_body_def build_request_def
      cong: if_cong sum.case_cong prod.case_cong)

theorem temperature_ignored_witness:
  "create_transcription example_env (url_request\<lparr>temperature := 7 / 10\<rparr>) =
     ([Construct ''sk-test'',
       Transcribe ''sk-test''
         [Some (PStr ''https://x.com/a.mp3''), None, Some (PStr ''best''), Some (PList []),
          Some (PBool False), Some (PBool True), Some (PBool True)]],
      Inr ''hello'')"
proof -
  have "create_transcription example_env url_request =
     ([Construct ''sk-test'',
       Transcribe ''sk-test''
         [Some (PStr ''https://x.com/a.mp3''), None, Some (PStr ''best''), Some (PList []),
          Some (PBool False), Some (PBool True), Some (PBool True)]],
      Inr ''hello'')"
    by (simp add: run_defs)
  with temperature_ignored [of example_env "7 / 10" url_request] show ?thesis by simp
qed

section \<open>The outer boundary\<close>

text \<open>
  Claim C8. The endpoint returns a payload or raises an \<^verbatim>\<open>HTTPException\<close>, and nothing
  else. An exception that leaves the body of the outer \<^verbatim>\<open>try\<close> and is not an
  \<^verbatim>\<open>HTTPException\<close> becomes status 500 with error type \<open>api_error\<close>, the fixed message
  \<open>Internal server error\<close> and no code, so nothing of the exception is echoed; an
  \<^verbatim>\<open>HTTPException\<close> passes unchanged, and the calls made are those of the body. The
  application-wide handler answers every exception with the same status and body.
\<close>

theorem outer_boundary_formats:
  "((\<exists>out. snd (create_transcription env rq) = Inr out) \<or>
    (\<exists>h. snd (create_transcription env rq) = Inl (HTTPException h))) \<and>
   (snd (transcription_body env rq) = Inl e \<and> (\<forall>h. e \<noteq> HTTPException h) \<longrightarrow>
      snd (create_transcription env rq) =
        Inl (HTTPException \<lparr>status_code = 500,
          detail = \<lparr>message = ''Internal server error'', error_type = ''api_error'',
            code = None\<rparr>\<rparr>)) \<and>
   (snd (transcription_body env rq) = Inl (HTTPException h) \<longrightarrow>
      snd (create_transcription env rq) = Inl (HTTPException h)) \<and>
   (snd (transcription_body env rq) = Inr out \<longrightarrow>
      snd (create_transcription env rq) = Inr out) \<and>
   fst (create_transcription env rq) = fst (transcription_body env rq) \<and>
   global_exception_handler exc =
     (500, \<lparr>message = ''Internal server error'', error_type = ''api_error'', code = None\<rparr>)"
proof (intro conjI impI)
  show "(\<exists>out. snd (create_transcription env rq) = Inr out) \<or>
    (\<exists>h. snd (create_transcription env rq) = Inl (HTTPException h))"
    by (rule result_formatted)
next
  assume "snd (transcription_body env rq) = Inl e \<and> (\<forall>h. e \<noteq> HTTPException h)"
  then show "snd (create_transcription env rq) =
        Inl (HTTPException \<lparr>status_code = 500,
          detail = \<lparr>message = ''Internal server error'', error_type = ''api_error'',
            code = None\<rparr>\<rparr>)"
    by (cases e)
       (simp_all add: create_transcription_def snd_outer_boundary internal_server_error_def
          format_openai_error_def)
qed (simp_all add: create_transcription_def snd_outer_boundary fst_outer_boundary
    global_exception_handler_def format_openai_error_def)

theorem outer_boundary_formats_witness:
  "snd (transcription_body
      (example_env\<lparr>parse_word_boost := \<lambda>p. Inl (OtherException ''KeyError: word_boost'')\<rparr>)
      url_request) = Inl (OtherException ''KeyError: word_boost'') \<and>
   snd (create_transcription
      (example_env\<lparr>parse_word_boost := \<lambda>p. Inl (OtherException ''KeyError: word_boost'')\<rparr>)
      url_request) =
     Inl (HTTPException \<lparr>status_code = 500,
       detail = \<lparr>message = ''Internal server error'', error_type = ''api_error'',
         code = None\<rparr>\<rparr>) \<and>
   snd (create_transcription
      (example_env\<lparr>AssemblyAITranscriptionRequest := \<lambda>p. Inl (ValueError ''validation error'')\<rparr>)
      url_request) =
     Inl (HTTPException \<lparr>status_code = 500,
       detail = \<lparr>message = ''Internal server error'', error_type = ''api_error'',
         code = None\<rparr>\<rparr>) \<and>
   snd (create_transcription example_env url_request) = Inr ''hello''"
proof -
  let ?e1 = "example_env\<lparr>parse_word_boost := \<lambda>p. Inl (OtherException ''KeyError: word_boost'')\<rparr>"
  let ?e2 = "example_env\<lparr>AssemblyAITranscriptionRequest := \<lambda>p. Inl (ValueError ''validation error'')\<rparr>"
  have b: "snd (transcription_body ?e1 url_request) = Inl (OtherException ''KeyError: word_boost'')"
    "snd (transcription_body ?e2 url_request) = Inl (ValueError ''validation error'')"
    "snd (transcription_body example_env url_request) = Inr ''hello''"
    by (simp_all add: run_defs)
  from outer_boundary_formats [of ?e1 url_request "OtherException ''KeyError: word_boost''"] b
  have 1: "snd (create_transcription ?e1 url_request) =
     Inl (HTTPException \<lparr>status_code = 500,
       detail = \<lparr>message = ''Internal server error'', error_type = ''api_error'',
         code = None\<rparr>\<rparr>)"
    by simp
  from outer_boundary_formats [of ?e2 url_request "ValueError ''validation error''"] b
  have 2: "snd (create_transcription ?e2 url_request) =
     Inl (HTTPException \<lparr>status_code = 500,
       detail = \<lparr>message = ''Internal server error'', error_type = ''api_error'',
         code = None\<rparr>\<rparr>)"
    by simp
  from outer_boundary_formats [of example_env url_request _ _ "''hello''"] b
  have 3: "snd (create_transcription example_env url_request) = Inr ''hello''"
    by simp
  from 1 2 3 b(1) show ?thesis by simp
qed

end
